theory Spec2Isabelle
  imports Complex_Main "HOL-Library.Sublist"
begin

section \<open>Plaesthetic: similarity ranking, library matching and the playback engine\<close>

text \<open>
  A shallow embedding of \<^verbatim>\<open>modules/tag_matching.py\<close>, \<^verbatim>\<open>modules/playback.py\<close> and the
  volume route of \<^verbatim>\<open>app.py\<close>. Python floats are modelled as \<^typ>\<open>real\<close>: rounding,
  overflow, underflow and NaN are outside the model. Every exception the modelled code can
  raise is a value of \<open>py_error\<close>.
\<close>

datatype py_error =
    ValueError | TypeError | KeyError | IndexError | AttributeError
  | RuntimeError | FileNotFoundError | ZeroDivisionError | DivideByZeroWarning

subsection \<open>Similarity ranker (\<^verbatim>\<open>cosine_similarity\<close>)\<close>

text \<open>
  \<^verbatim>\<open>np.dot\<close> on two one-dimensional arrays is the sum of the products of the entries; on
  arrays of different lengths it raises \<^verbatim>\<open>ValueError\<close> (shapes not aligned).
\<close>

definition np_dot :: "real list \<Rightarrow> real list \<Rightarrow> py_error + real" where
  "np_dot v1 v2 =
     (if length v1 \<noteq> length v2 then Inl ValueError
      else Inr (sum_list (map (\<lambda>(x, y). x * y) (zip v1 v2))))"

text \<open>\<^verbatim>\<open>np.linalg.norm\<close> of a one-dimensional array: the Euclidean norm.\<close>

definition np_linalg_norm :: "real list \<Rightarrow> real" where
  "np_linalg_norm v = sqrt (sum_list (map (\<lambda>x. x * x) v))"

text \<open>
  The division of two numpy scalars. numpy does not raise on a zero divisor: it yields
  inf or nan with a warning. The model keeps that case apart, as the result
  \<open>Inl DivideByZeroWarning\<close>, so that reaching it can be stated.
\<close>

definition np_divide :: "real \<Rightarrow> real \<Rightarrow> py_error + real" where
  "np_divide x y = (if y = 0 then Inl DivideByZeroWarning else Inr (x / y))"

definition cosine_similarity :: "real list \<Rightarrow> real list \<Rightarrow> py_error + real" where
  "cosine_similarity vec1 vec2 =
     (case np_dot vec1 vec2 of
        Inl e \<Rightarrow> Inl e
      | Inr dot_product \<Rightarrow>
          (let norm1 = np_linalg_norm vec1;
               norm2 = np_linalg_norm vec2
           in if norm1 = 0 \<or> norm2 = 0 then Inr 0
              else np_divide dot_product (norm1 * norm2)))"

subsection \<open>Song records and the library file\<close>

text \<open>
  A song is a JSON object, in Python a \<^verbatim>\<open>dict\<close>: an association list from field names to
  values. The values the code inspects are strings (\<^verbatim>\<open>title\<close>, \<^verbatim>\<open>type\<close>, \<^verbatim>\<open>link\<close>) and
  one nested object of strings (\<^verbatim>\<open>features\<close>). An absent key is \<open>map_of d k = None\<close>.
\<close>

datatype jval = Str string | Obj "(string \<times> string) list"

type_synonym song = "(string \<times> jval) list"

text \<open>What the file system holds at a path: nothing, a file that is not JSON, or a JSON
  array of objects.\<close>

datatype library_file = Missing | Not_json | Json "song list"

definition required_fields :: "string list" where
  "required_fields = [''title'', ''type'', ''link'', ''features'']"

text \<open>
  The validation loop of \<^verbatim>\<open>load_music_library\<close>. The \<^verbatim>\<open>raise\<close> for a song with missing
  fields sits inside the \<^verbatim>\<open>try\<close>, is not a \<^verbatim>\<open>JSONDecodeError\<close>, and so leaves the function
  as \<^verbatim>\<open>RuntimeError\<close> through the last handler.
\<close>

fun validate :: "song list \<Rightarrow> py_error option" where
  "validate [] = None"
| "validate (song # rest) =
     (let missing = filter (\<lambda>field. map_of song field = None) required_fields
      in if missing \<noteq> [] then Some RuntimeError else validate rest)"

definition load_music_library :: "(string \<Rightarrow> library_file) \<Rightarrow> string \<Rightarrow> py_error + song list" where
  "load_music_library fs library_path =
     (case fs library_path of
        Missing \<Rightarrow> Inl FileNotFoundError
      | Not_json \<Rightarrow> Inl ValueError
      | Json library \<Rightarrow>
          (case validate library of Some e \<Rightarrow> Inl e | None \<Rightarrow> Inr library))"

subsection \<open>Embedding provider (\<^verbatim>\<open>get_embedding\<close>)\<close>

text \<open>
  The HTTP service is a parameter: a function from the posted text to what comes back.
  In both handlers the \<^verbatim>\<open>raise ... from e [4][5]\<close> subscripts the caught exception, which
  is a \<^verbatim>\<open>TypeError\<close>; that is the exception that leaves the function.
\<close>

datatype api_response = Request_failed | Bad_payload | Embedding "real list"

definition get_embedding :: "(string \<Rightarrow> api_response) \<Rightarrow> string \<Rightarrow> string \<Rightarrow> py_error + real list" where
  "get_embedding api text api_key =
     (if api_key = [] then Inl ValueError
      else case api text of
             Request_failed \<Rightarrow> Inl TypeError
           | Bad_payload \<Rightarrow> Inl TypeError
           | Embedding embedding \<Rightarrow> Inr embedding)"

subsection \<open>Library matcher (\<^verbatim>\<open>match_music\<close>)\<close>

text \<open>The Chinese labels of the two format strings, as their UTF-8 bytes.\<close>

definition label_environment :: string where
  "label_environment = [CHR 0xE7, CHR 0x8E, CHR 0xAF, CHR 0xE5, CHR 0xA2, CHR 0x83]"

definition label_mood :: string where
  "label_mood = [CHR 0xE6, CHR 0x83, CHR 0x85, CHR 0xE7, CHR 0xBB, CHR 0xAA]"

definition label_rhythm :: string where
  "label_rhythm = [CHR 0xE9, CHR 0x9F, CHR 0xB5, CHR 0xE5, CHR 0xBE, CHR 0x8B]"

definition query_text :: "string \<Rightarrow> string \<Rightarrow> string" where
  "query_text environment mood =
     label_environment @ '':'' @ environment @ '', '' @ label_mood @ '':'' @ mood"

text \<open>\<^verbatim>\<open>song['features'].get(key, '')\<close>.\<close>

definition feature :: "song \<Rightarrow> string \<Rightarrow> py_error + string" where
  "feature song key =
     (case map_of song ''features'' of
        None \<Rightarrow> Inl KeyError
      | Some (Str _) \<Rightarrow> Inl AttributeError
      | Some (Obj fs) \<Rightarrow> Inr (case map_of fs key of None \<Rightarrow> [] | Some v \<Rightarrow> v))"

definition song_features :: "song \<Rightarrow> py_error + string" where
  "song_features song =
     (case feature song ''rhythm'' of
        Inl e \<Rightarrow> Inl e
      | Inr rhythm \<Rightarrow>
          (case feature song ''mood'' of
             Inl e \<Rightarrow> Inl e
           | Inr mood \<Rightarrow> Inr (label_rhythm @ '':'' @ rhythm @ '', '' @ label_mood @ '':'' @ mood)))"

text \<open>The scoring loop: one embedding call and one similarity per song, appended in
  library order; the first exception ends the loop.\<close>

fun score_songs :: "(string \<Rightarrow> api_response) \<Rightarrow> string \<Rightarrow> real list \<Rightarrow> song list
    \<Rightarrow> py_error + (song \<times> real) list" where
  "score_songs api api_key query_embedding [] = Inr []"
| "score_songs api api_key query_embedding (song # rest) =
     (case song_features song of
        Inl e \<Rightarrow> Inl e
      | Inr text \<Rightarrow>
     (case get_embedding api text api_key of
        Inl e \<Rightarrow> Inl e
      | Inr song_embedding \<Rightarrow>
     (case cosine_similarity query_embedding song_embedding of
        Inl e \<Rightarrow> Inl e
      | Inr similarity \<Rightarrow>
     (case map_of song ''title'' of
        None \<Rightarrow> Inl KeyError
      | Some _ \<Rightarrow>
     (case score_songs api api_key query_embedding rest of
        Inl e \<Rightarrow> Inl e
      | Inr matches \<Rightarrow> Inr ((song, similarity) # matches))))))"

text \<open>
  \<^verbatim>\<open>matches.sort(key=lambda x: x[1], reverse=True)\<close>: Python's sort is stable, and with
  \<^verbatim>\<open>reverse=True\<close> elements with equal keys still keep their original order. That is the
  stable insertion sort of HOL on the negated score.
\<close>

definition sort_matches :: "(song \<times> real) list \<Rightarrow> (song \<times> real) list" where
  "sort_matches matches = sort_key (\<lambda>x. - snd x) matches"

definition match_music :: "(string \<Rightarrow> api_response) \<Rightarrow> (string \<Rightarrow> library_file)
    \<Rightarrow> string \<Rightarrow> string \<Rightarrow> string \<Rightarrow> string \<Rightarrow> int \<Rightarrow> py_error + (song \<times> real) list" where
  "match_music api fs environment mood lib_path api_key top_n =
     (case load_music_library fs lib_path of
        Inl e \<Rightarrow> Inl e
      | Inr music_library \<Rightarrow>
     (case get_embedding api (query_text environment mood) api_key of
        Inl e \<Rightarrow> Inl e
      | Inr query_embedding \<Rightarrow>
     (case score_songs api api_key query_embedding music_library of
        Inl e \<Rightarrow> Inl e
      | Inr scored \<Rightarrow>
          (let matches = sort_matches scored
           in case matches of
                [] \<Rightarrow> Inl IndexError
              | best # _ \<Rightarrow>
                  (case map_of (fst best) ''title'' of
                     None \<Rightarrow> Inl KeyError
                   | Some _ \<Rightarrow> Inr (take (nat (max 1 top_n)) matches))))))"

subsection \<open>Playback engine (\<^verbatim>\<open>MusicPlayer\<close>)\<close>

text \<open>
  The fields of \<^verbatim>\<open>MusicPlayer\<close> that the operations read and write. \<open>thread_stop_event\<close>
  is whether the event is set. \<open>mixer_volume\<close> is not a field of the class: it records the
  argument of the last \<^verbatim>\<open>pygame.mixer.music.set_volume\<close> call. The lock and the thread
  handle carry no data; what the lock does to \<open>play\<close> is modelled there.
\<close>

record player =
  current_song :: "song option"
  is_playing :: bool
  is_paused :: bool
  progress :: real
  song_length :: real
  start_time :: real
  thread_stop_event :: bool
  mixer_volume :: real

definition MusicPlayer_init :: player where
  "MusicPlayer_init =
     \<lparr>current_song = None, is_playing = False, is_paused = False, progress = 0,
      song_length = 0, start_time = 0, thread_stop_event = False, mixer_volume = 1\<rparr>"

datatype pstate = Idle | Playing | Paused

definition state_of :: "player \<Rightarrow> pstate" where
  "state_of s = (if is_paused s then Paused else if is_playing s then Playing else Idle)"

text \<open>
  What the audio stack does with a link: \<^verbatim>\<open>pygame.mixer.music.load\<close> or \<^verbatim>\<open>play\<close> raises,
  or they succeed and \<^verbatim>\<open>AudioSegment.from_file\<close> raises, or all succeed and \<^verbatim>\<open>len(audio)\<close>
  is the given number.
\<close>

datatype media = Load_fails | Probe_fails | Audio real

text \<open>
  The log lines evaluate \<^verbatim>\<open>self.current_song['title'] if self.current_song else ...\<close>; an
  empty dict is false in Python. \<open>log_title\<close> is the exception of that expression, if any,
  and \<open>log_title_unguarded\<close> that of the bare \<^verbatim>\<open>self.current_song['title']\<close>.
\<close>

definition log_title :: "player \<Rightarrow> py_error option" where
  "log_title s =
     (case current_song s of
        None \<Rightarrow> None
      | Some d \<Rightarrow> if d = [] then None
                  else (case map_of d ''title'' of None \<Rightarrow> Some KeyError | Some _ \<Rightarrow> None))"

definition log_title_unguarded :: "player \<Rightarrow> py_error option" where
  "log_title_unguarded s =
     (case current_song s of
        None \<Rightarrow> Some TypeError
      | Some d \<Rightarrow> (case map_of d ''title'' of None \<Rightarrow> Some KeyError | Some _ \<Rightarrow> None))"

text \<open>
  \<open>stop\<close> returns the exception of its log line, if any, and the state it leaves.
\<close>

definition stop :: "player \<Rightarrow> py_error option \<times> player" where
  "stop s =
     (if is_playing s \<or> is_paused s then
        (let s1 = s\<lparr>thread_stop_event := True, is_playing := False, is_paused := False,
                     progress := 0\<rparr>
         in (log_title s1, s1))
      else (None, s))"

definition skip :: "player \<Rightarrow> py_error option \<times> player" where
  "skip s = (case log_title s of Some e \<Rightarrow> (Some e, s) | None \<Rightarrow> stop s)"

text \<open>
  \<open>play\<close> takes the clock reading and the audio stack. The result \<open>None\<close> means the call
  never returns: \<^verbatim>\<open>play\<close> holds \<^verbatim>\<open>self.lock\<close>, a non-reentrant \<^verbatim>\<open>threading.Lock\<close>, when it
  calls \<^verbatim>\<open>self.stop()\<close>, which acquires the same lock. Otherwise the result is the returned
  boolean or the uncaught exception, and the state left behind.
\<close>

definition play :: "real \<Rightarrow> (jval \<Rightarrow> media) \<Rightarrow> song \<Rightarrow> player
    \<Rightarrow> ((py_error + bool) \<times> player) option" where
  "play now device song_info s =
     (if is_playing s \<or> is_paused s then None
      else
        let s1 = s\<lparr>current_song := Some song_info, is_paused := False, progress := 0\<rparr>
        in case map_of song_info ''title'' of
             None \<Rightarrow> Some (Inl KeyError, s1)
           | Some _ \<Rightarrow>
          (case map_of song_info ''type'' of
             None \<Rightarrow> Some (Inl KeyError, s1)
           | Some ty \<Rightarrow>
               if ty = Str ''local'' then
                 (case map_of song_info ''link'' of
                    None \<Rightarrow> Some (Inr False, s1\<lparr>current_song := None\<rparr>)
                  | Some l \<Rightarrow>
                      (case device l of
                         Load_fails \<Rightarrow> Some (Inr False, s1\<lparr>current_song := None\<rparr>)
                       | Probe_fails \<Rightarrow>
                           Some (Inr False, s1\<lparr>start_time := now, current_song := None\<rparr>)
                       | Audio len \<Rightarrow>
                           Some (Inr True,
                                 s1\<lparr>start_time := now, song_length := len,
                                    thread_stop_event := False, is_playing := True\<rparr>)))
               else if ty = Str ''online'' then
                 (case map_of song_info ''link'' of
                    None \<Rightarrow> Some (Inl KeyError, s1)
                  | Some _ \<Rightarrow> Some (Inr False, s1))
               else Some (Inr False, s1)))"

text \<open>The expression \<^verbatim>\<open>min(100.0, (elapsed / self.song_length) * 100)\<close> of \<^verbatim>\<open>pause\<close> and
  of the tracker, for a non-zero \<open>song_length\<close>.\<close>

definition elapsed_percent :: "real \<Rightarrow> player \<Rightarrow> real" where
  "elapsed_percent now s = min 100 ((now - start_time s) / song_length s * 100)"

definition pause :: "real \<Rightarrow> player \<Rightarrow> py_error option \<times> player" where
  "pause now s =
     (if is_playing s \<and> \<not> is_paused s then
        (let s1 = s\<lparr>is_paused := True\<rparr>
         in if song_length s1 = 0 then (Some ZeroDivisionError, s1)
            else (let s2 = s1\<lparr>progress := elapsed_percent now s1\<rparr>
                  in (log_title s2, s2)))
      else (None, s))"

definition resume :: "real \<Rightarrow> player \<Rightarrow> py_error option \<times> player" where
  "resume now s =
     (if is_paused s then
        (let s1 = s\<lparr>start_time := now - (progress s / 100 * song_length s),
                     is_paused := False, is_playing := True\<rparr>
         in (log_title_unguarded s1, s1))
      else (None, s))"

definition set_volume :: "int \<Rightarrow> player \<Rightarrow> player" where
  "set_volume target_volume s = s\<lparr>mixer_volume := real_of_int target_volume / 100\<rparr>"

definition set_progress :: "real \<Rightarrow> player \<Rightarrow> player" where
  "set_progress percentage s =
     (if \<not> is_playing s \<or> is_paused s then s
      else (let clamped_percentage = max 0 (min 100 percentage)
            in s\<lparr>progress := clamped_percentage\<rparr>))"

definition get_progress :: "player \<Rightarrow> bool \<times> real \<times> song option" where
  "get_progress s = (is_playing s \<and> \<not> is_paused s, progress s, current_song s)"

subsection \<open>The volume route of \<^verbatim>\<open>app.py\<close>\<close>

text \<open>
  The route \<^verbatim>\<open>/api/volume\<close>: its input here is the outcome of \<^verbatim>\<open>int(float(volume_input))\<close>,
  \<open>None\<close> when that conversion raises \<^verbatim>\<open>TypeError\<close> or \<^verbatim>\<open>ValueError\<close>. It returns the
  reported volume and the player.
\<close>

definition app_set_volume :: "int option \<Rightarrow> player \<Rightarrow> int \<times> player" where
  "app_set_volume converted s =
     (let volume_percent = (case converted of None \<Rightarrow> 50 | Some v \<Rightarrow> v);
          volume_percent = max 0 (min 100 volume_percent)
      in (volume_percent, set_volume volume_percent s))"

subsection \<open>The background tracker (\<^verbatim>\<open>_track_progress\<close>)\<close>

text \<open>
  The tracker runs beside the thread that calls the control operations; each control
  operation and each locked section of the tracker is atomic under the lock. One cycle of
  the loop is a \<open>tick\<close>: the control operations that complete before the loop tests the
  stop event, those that complete while the tracker sleeps, and the clock reading once it
  holds the lock. \<open>play\<close> is not among the operations of a tick. The loop is run on a list
  of ticks; when the list ends with the thread still in the loop the result is \<open>Looping\<close>.
\<close>

datatype command = Pause real | Resume real | Stop | Skip | Set_progress real | Set_volume int

fun run_command :: "command \<Rightarrow> player \<Rightarrow> player" where
  "run_command (Pause now) s = snd (pause now s)"
| "run_command (Resume now) s = snd (resume now s)"
| "run_command Stop s = snd (stop s)"
| "run_command Skip s = snd (skip s)"
| "run_command (Set_progress percentage) s = set_progress percentage s"
| "run_command (Set_volume target_volume) s = set_volume target_volume s"

type_synonym tick = "command list \<times> command list \<times> real"

datatype tracker_exit = Cancelled | Returned real | Raised py_error | Looping

fun track_progress :: "tick list \<Rightarrow> player \<Rightarrow> tracker_exit \<times> player" where
  "track_progress [] s = (Looping, s)"
| "track_progress ((before_test, during_sleep, now) # rest) s =
     (let s0 = fold run_command before_test s
      in if thread_stop_event s0 then (Cancelled, s0)
         else
           (let s1 = fold run_command during_sleep s0
            in if \<not> is_playing s1 \<or> is_paused s1
                    \<or> current_song s1 = None \<or> current_song s1 = Some []
               then track_progress rest s1
               else if song_length s1 = 0 then (Raised ZeroDivisionError, s1)
               else (let s2 = s1\<lparr>progress := elapsed_percent now s1\<rparr>
                     in (Returned (progress s2), s2))))"

subsection \<open>The range of the progress field\<close>

text \<open>The comment on the field in \<^verbatim>\<open>__init__\<close>: a percentage from 0.0 to 100.0.\<close>

definition progress_in_range :: "player \<Rightarrow> bool" where
  "progress_in_range s \<longleftrightarrow> 0 \<le> progress s \<and> progress s \<le> 100"

text \<open>The invariant of a run at clock reading \<open>t\<close>: the progress is in range, and an
  active session has a positive track length and a start time not after \<open>t\<close>.\<close>

definition session_inv :: "real \<Rightarrow> player \<Rightarrow> bool" where
  "session_inv t s \<longleftrightarrow>
     progress_in_range s
     \<and> (is_playing s \<or> is_paused s \<longrightarrow> 0 < song_length s \<and> start_time s \<le> t)"

subsection \<open>Runs of the player\<close>

text \<open>
  The states a player goes through under a clock that never runs backwards:
  \<open>reach device t s\<close> says that \<open>s\<close> is the state after some sequence of operations,
  each at a clock reading not before that of the one before, the last at \<open>t\<close>. An
  update of the tracker is one cycle of \<open>track_progress\<close>.
\<close>

inductive reach :: "(jval \<Rightarrow> media) \<Rightarrow> real \<Rightarrow> player \<Rightarrow> bool"
  for device :: "jval \<Rightarrow> media" where
  reach_init: "reach device t MusicPlayer_init"
| reach_play: "reach device t s \<Longrightarrow> t \<le> now \<Longrightarrow> play now device song_info s = Some (r, s')
     \<Longrightarrow> reach device now s'"
| reach_pause: "reach device t s \<Longrightarrow> t \<le> now \<Longrightarrow> reach device now (snd (pause now s))"
| reach_resume: "reach device t s \<Longrightarrow> t \<le> now \<Longrightarrow> reach device now (snd (resume now s))"
| reach_stop: "reach device t s \<Longrightarrow> t \<le> now \<Longrightarrow> reach device now (snd (stop s))"
| reach_skip: "reach device t s \<Longrightarrow> t \<le> now \<Longrightarrow> reach device now (snd (skip s))"
| reach_set_progress: "reach device t s \<Longrightarrow> t \<le> now
     \<Longrightarrow> reach device now (set_progress percentage s)"
| reach_set_volume: "reach device t s \<Longrightarrow> t \<le> now
     \<Longrightarrow> reach device now (set_volume target_volume s)"
| reach_tracker: "reach device t s \<Longrightarrow> t \<le> now
     \<Longrightarrow> reach device now (snd (track_progress [([], [], now)] s))"

subsection \<open>Concrete inputs\<close>

text \<open>Two well-formed song records, an audio stack on which every link loads as a track
  of length 200, and the states reached from a fresh player by \<open>play\<close> at time 0 and by
  \<open>pause\<close> at time 50.\<close>

definition demo_song :: song where
  "demo_song =
     [(''title'', Str ''Rain''), (''type'', Str ''local''), (''link'', Str ''rain.mp3''),
      (''features'', Obj [(''rhythm'', ''slow''), (''mood'', ''calm'')])]"

definition demo_online :: song where
  "demo_online =
     [(''title'', Str ''Cloud''), (''type'', Str ''online''), (''link'', Str ''id-42''),
      (''features'', Obj [(''rhythm'', ''fast''), (''mood'', ''bright'')])]"

definition demo_device :: "jval \<Rightarrow> media" where
  "demo_device l = Audio 200"

definition demo_playing :: player where
  "demo_playing =
     \<lparr>current_song = Some demo_song, is_playing = True, is_paused = False, progress = 0,
      song_length = 200, start_time = 0, thread_stop_event = False, mixer_volume = 1\<rparr>"

definition demo_paused :: player where
  "demo_paused = demo_playing\<lparr>is_paused := True, progress := 25\<rparr>"

definition demo_api :: "string \<Rightarrow> api_response" where
  "demo_api text = Embedding [1, 0]"

text \<open>A library of three songs, the second and the third with the same features, and an
  embedding service that tells the features of the first from all other texts.\<close>

definition demo_song2 :: song where
  "demo_song2 =
     [(''title'', Str ''Mist''), (''type'', Str ''local''), (''link'', Str ''mist.mp3''),
      (''features'', Obj [(''rhythm'', ''slow''), (''mood'', ''calm'')])]"

definition demo_library :: "song list" where
  "demo_library = [demo_online, demo_song, demo_song2]"

definition demo_ranked_api :: "string \<Rightarrow> api_response" where
  "demo_ranked_api text =
     (if text = label_rhythm @ '':fast, '' @ label_mood @ '':bright'' then Embedding [0, 1]
      else Embedding [1, 0])"

section \<open>Properties of the similarity ranker\<close>

lemma sum_list_squares_nonneg: "0 \<le> sum_list (map (\<lambda>x. x * x) (v :: real list))"
  by (induction v) simp_all

lemma sum_list_squares_zero_iff:
  "sum_list (map (\<lambda>x. x * x) (v :: real list)) = 0 \<longleftrightarrow> (\<forall>x \<in> set v. x = 0)"
proof (induction v)
  case Nil
  show ?case by simp
next
  case (Cons a v)
  have "a * a + sum_list (map (\<lambda>x. x * x) v) = 0 \<longleftrightarrow>
        a * a = 0 \<and> sum_list (map (\<lambda>x. x * x) v) = 0"
    using sum_list_squares_nonneg [of v] by (simp add: add_nonneg_eq_0_iff)
  with Cons.IH show ?case by simp
qed

text \<open>A vector has zero magnitude exactly when all its entries are zero.\<close>

lemma np_linalg_norm_zero_iff: "np_linalg_norm v = 0 \<longleftrightarrow> (\<forall>x \<in> set v. x = 0)"
  by (simp add: np_linalg_norm_def sum_list_squares_zero_iff)

lemma np_dot_commute: "np_dot v1 v2 = np_dot v2 v1"
proof -
  have "sum_list (map (\<lambda>(x, y). x * y) (zip a b)) = sum_list (map (\<lambda>(x, y). x * y) (zip b a))"
    for a b :: "real list"
    by (induction a b rule: list_induct2') (simp_all add: mult.commute)
  then show ?thesis by (simp add: np_dot_def)
qed

text \<open>
  C8. For two vectors of the same dimension of which at least one has zero magnitude,
  \<open>cosine_similarity\<close> returns 0.0 and raises nothing; and for every pair of vectors
  whatsoever the division is never reached with a zero divisor.
\<close>

theorem cosine_similarity_zero_magnitude:
  "(length vec1 = length vec2 \<and> (np_linalg_norm vec1 = 0 \<or> np_linalg_norm vec2 = 0)
      \<longrightarrow> cosine_similarity vec1 vec2 = Inr 0)
   \<and> cosine_similarity vec1 vec2 \<noteq> Inl DivideByZeroWarning"
  by (auto simp: cosine_similarity_def np_dot_def np_divide_def Let_def)

theorem cosine_similarity_zero_magnitude_witness:
  "length [0, 0 :: real] = length [3, 4 :: real]
   \<and> (np_linalg_norm [0, 0] = 0 \<or> np_linalg_norm [3, 4] = 0)
   \<and> cosine_similarity [0, 0] [3, 4] = Inr 0"
proof -
  have n: "np_linalg_norm [0, 0] = 0"
    by (simp add: np_linalg_norm_def)
  have "length [0, 0 :: real] = length [3, 4 :: real]
        \<and> (np_linalg_norm [0, 0] = 0 \<or> np_linalg_norm [3, 4] = 0)"
    using n by simp
  with cosine_similarity_zero_magnitude [of "[0, 0]" "[3, 4]"] n show ?thesis
    by blast
qed

text \<open>
  C9. \<open>cosine_similarity\<close> is symmetric in its two arguments, in its value and in the
  error it raises on vectors of different dimensions.
\<close>

theorem cosine_similarity_commute:
  "cosine_similarity a b = cosine_similarity b a"
  by (auto simp: cosine_similarity_def np_dot_commute [of a b] Let_def mult.commute
           split: sum.splits)

section \<open>Properties of the playback engine\<close>

text \<open>The concrete states are reachable: \<open>play\<close> on a fresh player, then \<open>pause\<close>.\<close>

lemma demo_playing_reached:
  "play 0 demo_device demo_song MusicPlayer_init = Some (Inr True, demo_playing)"
  by (simp add: play_def demo_device_def demo_song_def MusicPlayer_init_def demo_playing_def)

lemma demo_paused_reached: "pause 50 demo_playing = (None, demo_paused)"
  by (simp add: pause_def demo_playing_def demo_paused_def elapsed_percent_def log_title_def
      demo_song_def)

text \<open>
  C1. For a session in state Playing or Paused, \<open>stop\<close> leaves the session Idle with
  progress 0 and the stop event set, and keeps \<open>current_song\<close>: a following
  \<open>get_progress\<close> returns \<open>(False, 0, current_song)\<close> with the song that was stopped, not
  with no song. It raises nothing when the log line before raised nothing.
\<close>

theorem stop_resets_session:
  assumes "state_of s = Playing \<or> state_of s = Paused"
  shows "state_of (snd (stop s)) = Idle
       \<and> progress (snd (stop s)) = 0
       \<and> thread_stop_event (snd (stop s))
       \<and> current_song (snd (stop s)) = current_song s
       \<and> get_progress (snd (stop s)) = (False, 0, current_song s)
       \<and> fst (stop s) = log_title s"
proof -
  from assms have active: "is_playing s \<or> is_paused s"
    by (auto simp: state_of_def split: if_splits)
  then show ?thesis
    by (simp add: stop_def state_of_def get_progress_def log_title_def Let_def)
qed

theorem stop_resets_session_witness:
  "(state_of demo_playing = Playing \<or> state_of demo_playing = Paused)
   \<and> state_of (snd (stop demo_playing)) = Idle
   \<and> get_progress (snd (stop demo_playing)) = (False, 0, Some demo_song)"
proof -
  have h: "state_of demo_playing = Playing \<or> state_of demo_playing = Paused"
    by (simp add: state_of_def demo_playing_def)
  have c: "current_song demo_playing = Some demo_song"
    by (simp add: demo_playing_def)
  from stop_resets_session [OF h] h c show ?thesis
    by simp
qed

text \<open>On the playing state reached by \<open>play\<close>, what \<open>get_progress\<close> returns after
  \<open>stop\<close> is not \<open>(False, 0, None)\<close>: its third component is still the song.\<close>

theorem stop_clears_song_counterexample:
  "state_of demo_playing = Playing
   \<and> get_progress (snd (stop demo_playing)) \<noteq> (False, 0, None)"
  by (simp add: state_of_def stop_def get_progress_def demo_playing_def Let_def)

text \<open>
  C2. \<open>play\<close> of an online song on a fresh player returns \<open>False\<close> and leaves the session
  Idle, but with \<open>current_song\<close> set to that song: the assignment at the head of \<open>play\<close>
  is not undone on the online branch.
\<close>

theorem play_online_leaves_current_song:
  "play 0 demo_device demo_online MusicPlayer_init
     = Some (Inr False, MusicPlayer_init\<lparr>current_song := Some demo_online\<rparr>)
   \<and> state_of (MusicPlayer_init\<lparr>current_song := Some demo_online\<rparr>) = Idle
   \<and> current_song (MusicPlayer_init\<lparr>current_song := Some demo_online\<rparr>) \<noteq> None"
  by (simp add: play_def demo_online_def MusicPlayer_init_def state_of_def)

text \<open>The same holds for every online song with a title and a link, on every Idle session;
  the failure branch for a local song does reset \<open>current_song\<close>; and on a session
  that is not Idle \<open>play\<close> does not return at all.\<close>

lemma play_online_idle:
  assumes "state_of s = Idle"
    and "map_of song_info ''type'' = Some (Str ''online'')"
    and "map_of song_info ''title'' \<noteq> None" and "map_of song_info ''link'' \<noteq> None"
  shows "play now device song_info s
           = Some (Inr False, s\<lparr>current_song := Some song_info, is_paused := False, progress := 0\<rparr>)"
  using assms by (auto simp: play_def state_of_def Let_def split: if_splits)

lemma play_local_load_failure:
  assumes "state_of s = Idle"
    and "map_of song_info ''type'' = Some (Str ''local'')"
    and "map_of song_info ''title'' \<noteq> None" and "map_of song_info ''link'' = Some l"
    and "device l = Load_fails"
  shows "play now device song_info s
           = Some (Inr False, s\<lparr>is_paused := False, progress := 0, current_song := None\<rparr>)"
  using assms by (auto simp: play_def state_of_def Let_def split: if_splits)

lemma play_blocks_when_active:
  "state_of s \<noteq> Idle \<Longrightarrow> play now device song_info s = None"
  by (auto simp: play_def state_of_def split: if_splits)

text \<open>
  C3. \<open>set_volume\<close> hands \<open>target_volume / 100\<close> to the mixer as it is, for every integer;
  the clamp to the range from 0 to 100 is made by the volume route of \<^verbatim>\<open>app.py\<close> before
  it calls \<open>set_volume\<close>, so that through the route 150 gives 100 and -10 gives 0.
\<close>

theorem set_volume_unclamped_route_clamps:
  "mixer_volume (set_volume v s) = real_of_int v / 100
   \<and> fst (app_set_volume (Some v) s) = max 0 (min 100 v)
   \<and> mixer_volume (snd (app_set_volume (Some v) s)) = real_of_int (max 0 (min 100 v)) / 100
   \<and> fst (app_set_volume (Some 150) s) = 100
   \<and> fst (app_set_volume (Some (- 10)) s) = 0
   \<and> 0 \<le> mixer_volume (snd (app_set_volume c s))
   \<and> mixer_volume (snd (app_set_volume c s)) \<le> 1"
  by (cases c) (simp_all add: set_volume_def app_set_volume_def Let_def)

theorem set_volume_clamps_counterexample:
  "mixer_volume (set_volume 150 MusicPlayer_init) = 3 / 2
   \<and> mixer_volume (set_volume 150 MusicPlayer_init) \<noteq> real_of_int (max 0 (min 100 150)) / 100
   \<and> mixer_volume (set_volume (- 10) MusicPlayer_init) = - (1 / 10)
   \<and> mixer_volume (set_volume (- 10) MusicPlayer_init) \<noteq> real_of_int (max 0 (min 100 (- 10))) / 100"
  by (simp add: set_volume_def)

section \<open>Resuming and the progress invariant\<close>

lemma elapsed_percent_after_resume:
  assumes "0 < d"
  shows "(t - (now - p / 100 * d)) / d * 100 = (t - now) / d * 100 + (p :: real)"
  using assms by (simp add: field_simps)

lemma resume_paused_state:
  assumes "is_paused s"
  shows "snd (resume now s)
           = s\<lparr>start_time := now - (progress s / 100 * song_length s),
               is_paused := False, is_playing := True\<rparr>"
  using assms by (simp add: resume_def Let_def)

lemma elapsed_percent_resumed:
  assumes "is_paused s" and "0 < song_length s"
  shows "elapsed_percent t (snd (resume now s))
           = min 100 ((t - now) / song_length s * 100 + progress s)"
  using assms elapsed_percent_after_resume [of "song_length s" t now "progress s"]
  by (simp add: resume_paused_state elapsed_percent_def)

text \<open>
  C7. For a Paused session with frozen progress \<open>p\<close> (at most 100) and a positive duration
  \<open>d\<close>, \<open>resume\<close> at time \<open>now\<close> sets \<open>start_time\<close> to \<open>now - p / 100 * d\<close>, makes the
  session Playing and keeps \<open>p\<close>, which \<open>get_progress\<close> then reports. The progress
  computed from then on equals \<open>p\<close> at \<open>now\<close>, is at least \<open>p\<close> at any later time and
  does not decrease with time; it is what a later \<open>pause\<close> stores and, with the stop
  event not set and a current song, what the next cycle of the tracker stores.
\<close>

theorem resume_continues_from_progress:
  assumes paused: "state_of s = Paused"
    and dur: "0 < song_length s"
    and frozen: "progress s \<le> 100"
    and t1: "now \<le> t1" and t2: "t1 \<le> t2"
  shows "start_time (snd (resume now s)) = now - progress s / 100 * song_length s
       \<and> state_of (snd (resume now s)) = Playing
       \<and> get_progress (snd (resume now s)) = (True, progress s, current_song s)
       \<and> elapsed_percent now (snd (resume now s)) = progress s
       \<and> progress s \<le> elapsed_percent t1 (snd (resume now s))
       \<and> elapsed_percent t1 (snd (resume now s)) \<le> elapsed_percent t2 (snd (resume now s))
       \<and> progress (snd (pause t1 (snd (resume now s)))) = elapsed_percent t1 (snd (resume now s))
       \<and> (\<not> thread_stop_event s \<and> current_song s \<noteq> None \<and> current_song s \<noteq> Some [] \<longrightarrow>
            fst (track_progress (([], [], t1) # rest) (snd (resume now s)))
              = Returned (elapsed_percent t1 (snd (resume now s))))"
proof -
  from paused have p: "is_paused s"
    by (simp add: state_of_def split: if_splits)
  let ?r = "snd (resume now s)"
  have r: "?r = s\<lparr>start_time := now - (progress s / 100 * song_length s),
                   is_paused := False, is_playing := True\<rparr>"
    using p by (rule resume_paused_state)
  have e: "elapsed_percent t ?r = min 100 ((t - now) / song_length s * 100 + progress s)" for t
    using p dur by (rule elapsed_percent_resumed)
  have a: "start_time ?r = now - progress s / 100 * song_length s"
    by (simp add: r)
  have b: "state_of ?r = Playing"
    by (simp add: r state_of_def)
  have c: "get_progress ?r = (True, progress s, current_song s)"
    by (simp add: r get_progress_def)
  have d: "elapsed_percent now ?r = progress s"
    using frozen by (simp add: e)
  have q1: "0 \<le> (t1 - now) / song_length s * 100"
    using t1 dur by simp
  have f: "progress s \<le> elapsed_percent t1 ?r"
    using q1 frozen by (simp add: e)
  have "(t1 - now) / song_length s \<le> (t2 - now) / song_length s"
    using t2 dur by (simp add: divide_right_mono)
  then have "(t1 - now) / song_length s * 100 + progress s
               \<le> (t2 - now) / song_length s * 100 + progress s"
    by (intro add_right_mono mult_right_mono) simp_all
  then have g: "elapsed_percent t1 ?r \<le> elapsed_percent t2 ?r"
    unfolding e by (intro min.mono order_refl)
  have h: "progress (snd (pause t1 ?r)) = elapsed_percent t1 ?r"
    using dur by (simp add: r pause_def Let_def elapsed_percent_def)
  have i: "fst (track_progress (([], [], t1) # rest) ?r) = Returned (elapsed_percent t1 ?r)"
    if "\<not> thread_stop_event s" and "current_song s \<noteq> None" and "current_song s \<noteq> Some []"
    using that dur by (auto simp: r Let_def elapsed_percent_def)
  from a b c d f g h i show ?thesis
    by blast
qed

theorem resume_continues_from_progress_witness:
  "state_of demo_paused = Paused \<and> 0 < song_length demo_paused \<and> progress demo_paused \<le> 100
   \<and> (60 :: real) \<le> 70 \<and> (70 :: real) \<le> 80
   \<and> \<not> thread_stop_event demo_paused
   \<and> current_song demo_paused \<noteq> None \<and> current_song demo_paused \<noteq> Some []
   \<and> start_time (snd (resume 60 demo_paused)) = 10
   \<and> state_of (snd (resume 60 demo_paused)) = Playing
   \<and> progress demo_paused \<le> elapsed_percent 70 (snd (resume 60 demo_paused))
   \<and> elapsed_percent 70 (snd (resume 60 demo_paused))
        \<le> elapsed_percent 80 (snd (resume 60 demo_paused))
   \<and> fst (track_progress [([], [], 70)] (snd (resume 60 demo_paused)))
        = Returned (elapsed_percent 70 (snd (resume 60 demo_paused)))"
proof -
  have h1: "state_of demo_paused = Paused"
    by (simp add: state_of_def demo_paused_def)
  have h2: "0 < song_length demo_paused"
    by (simp add: demo_paused_def demo_playing_def)
  have h3: "progress demo_paused \<le> 100"
    by (simp add: demo_paused_def)
  have h4: "(60 :: real) \<le> 70" and h5: "(70 :: real) \<le> 80"
    by simp_all
  have h6: "\<not> thread_stop_event demo_paused \<and> current_song demo_paused \<noteq> None
            \<and> current_song demo_paused \<noteq> Some []"
    by (simp add: demo_paused_def demo_playing_def demo_song_def)
  have v: "60 - progress demo_paused / 100 * song_length demo_paused = 10"
    by (simp add: demo_paused_def demo_playing_def)
  from resume_continues_from_progress [OF h1 h2 h3 h4 h5, of "[]"] v h1 h2 h3 h6 show ?thesis
    by simp
qed

text \<open>
  C10. Where the progress is between 0 and 100, every operation of the player that
  returns leaves it between 0 and 100; for \<open>pause\<close> and for an update of the tracker, the
  two that compute it from the clock, this holds when the clock reading is not before the
  recorded start time and the track duration is positive. \<open>resume\<close> then records a start
  time that is not after the clock reading.
\<close>

theorem progress_range_preserved:
  assumes inv: "progress_in_range s"
  shows "(\<forall>r s'. play now device song_info s = Some (r, s') \<longrightarrow> progress_in_range s')
       \<and> progress_in_range (snd (resume now s))
       \<and> progress_in_range (snd (stop s))
       \<and> progress_in_range (snd (skip s))
       \<and> progress_in_range (set_progress percentage s)
       \<and> progress_in_range (set_volume target_volume s)
       \<and> (start_time s \<le> now \<and> 0 < song_length s \<longrightarrow>
            progress_in_range (snd (pause now s))
          \<and> progress_in_range (snd (track_progress [([], [], now)] s))
          \<and> start_time (snd (resume now s)) \<le> now)"
proof -
  have play_ok: "\<forall>r s'. play now device song_info s = Some (r, s') \<longrightarrow> progress_in_range s'"
    by (auto simp: play_def progress_in_range_def Let_def
             split: if_splits option.splits media.splits)
  have resume_ok: "progress_in_range (snd (resume now s))"
    using inv by (simp add: resume_def progress_in_range_def Let_def)
  have stop_ok: "progress_in_range (snd (stop s))"
    using inv by (simp add: stop_def progress_in_range_def Let_def)
  have skip_ok: "progress_in_range (snd (skip s))"
    using inv stop_ok by (simp add: skip_def split: option.splits)
  have seek_ok: "progress_in_range (set_progress percentage s)"
    using inv by (simp add: set_progress_def progress_in_range_def Let_def)
  have volume_ok: "progress_in_range (set_volume target_volume s)"
    using inv by (simp add: set_volume_def progress_in_range_def)
  have timed: "progress_in_range (snd (pause now s))
             \<and> progress_in_range (snd (track_progress [([], [], now)] s))
             \<and> start_time (snd (resume now s)) \<le> now"
    if clock: "start_time s \<le> now" and dur: "0 < song_length s"
  proof -
    have e: "0 \<le> elapsed_percent now s \<and> elapsed_percent now s \<le> 100"
      using clock dur by (simp add: elapsed_percent_def)
    have pause_ok: "progress_in_range (snd (pause now s))"
      using inv e by (simp add: pause_def progress_in_range_def Let_def elapsed_percent_def)
    have tracker_ok: "progress_in_range (snd (track_progress [([], [], now)] s))"
      using inv e by (simp add: progress_in_range_def Let_def)
    have "0 \<le> progress s / 100 * song_length s"
      using inv dur by (simp add: progress_in_range_def)
    with clock have resume_clock: "start_time (snd (resume now s)) \<le> now"
      by (simp add: resume_def Let_def)
    from pause_ok tracker_ok resume_clock show ?thesis
      by blast
  qed
  from play_ok resume_ok stop_ok skip_ok seek_ok volume_ok timed show ?thesis
    by blast
qed

theorem progress_range_preserved_witness:
  "progress_in_range demo_playing \<and> start_time demo_playing \<le> 50 \<and> 0 < song_length demo_playing
   \<and> progress_in_range (snd (pause 50 demo_playing))
   \<and> progress_in_range (set_progress 250 demo_playing)
   \<and> progress_in_range (snd (track_progress [([], [], 50)] demo_playing))
   \<and> play 0 demo_device demo_song MusicPlayer_init = Some (Inr True, demo_playing)
   \<and> progress_in_range MusicPlayer_init"
proof -
  have h1: "progress_in_range demo_playing"
    by (simp add: progress_in_range_def demo_playing_def)
  have h2: "start_time demo_playing \<le> 50"
    by (simp add: demo_playing_def)
  have h3: "0 < song_length demo_playing"
    by (simp add: demo_playing_def)
  have h0: "progress_in_range MusicPlayer_init"
    by (simp add: progress_in_range_def MusicPlayer_init_def)
  from progress_range_preserved [OF h1, of 50 _ _ 250] h1 h2 h3
    progress_range_preserved [OF h0, of 0 demo_device demo_song] demo_playing_reached h0
  show ?thesis
    by blast
qed

text \<open>
  The two conditions on the clock and the duration hold by themselves along every run in
  which the clock never runs backwards and every track that loads has a positive length:
  the progress of every state of such a run is between 0 and 100. The proof is by
  induction on the run, with the invariant that an active session has a positive track
  length and a start time not after the clock.
\<close>

lemma session_inv_later: "session_inv t s \<Longrightarrow> t \<le> t' \<Longrightarrow> session_inv t' s"
  by (auto simp: session_inv_def)

lemma session_inv_play:
  assumes "\<forall>l len. device l = Audio len \<longrightarrow> 0 < len"
    and "play now device song_info s = Some (r, s')"
  shows "session_inv now s'"
  using assms
  by (auto simp: play_def session_inv_def progress_in_range_def Let_def
           split: if_splits option.splits media.splits)

lemma session_inv_pause: "session_inv now s \<Longrightarrow> session_inv now (snd (pause now s))"
  by (auto simp: pause_def session_inv_def progress_in_range_def elapsed_percent_def Let_def)

lemma session_inv_resume:
  assumes "session_inv now s"
  shows "session_inv now (snd (resume now s))"
proof (cases "is_paused s")
  case False
  with assms show ?thesis by (simp add: resume_def)
next
  case True
  with assms have "0 \<le> progress s" and "0 < song_length s" and "progress s \<le> 100"
    by (auto simp: session_inv_def progress_in_range_def)
  then have "0 \<le> progress s / 100 * song_length s"
    by simp
  with True assms show ?thesis
    by (simp add: resume_def session_inv_def progress_in_range_def Let_def)
qed

lemma session_inv_stop: "session_inv now s \<Longrightarrow> session_inv now (snd (stop s))"
  by (auto simp: stop_def session_inv_def progress_in_range_def Let_def)

lemma session_inv_skip: "session_inv now s \<Longrightarrow> session_inv now (snd (skip s))"
  by (auto simp: skip_def session_inv_stop split: option.splits)

lemma session_inv_set_progress:
  "session_inv now s \<Longrightarrow> session_inv now (set_progress percentage s)"
  by (auto simp: set_progress_def session_inv_def progress_in_range_def Let_def)

lemma session_inv_set_volume:
  "session_inv now s \<Longrightarrow> session_inv now (set_volume target_volume s)"
  by (auto simp: set_volume_def session_inv_def progress_in_range_def)

lemma session_inv_tracker:
  "session_inv now s \<Longrightarrow> session_inv now (snd (track_progress [([], [], now)] s))"
  by (auto simp: session_inv_def progress_in_range_def elapsed_percent_def Let_def)

lemma reach_session_inv:
  assumes tracks: "\<forall>l len. device l = Audio len \<longrightarrow> 0 < len"
    and run: "reach device t s"
  shows "session_inv t s"
  using run
proof (induction rule: reach.induct)
  case (reach_init t)
  show ?case
    by (simp add: session_inv_def progress_in_range_def MusicPlayer_init_def)
next
  case (reach_play t s now song_info r s')
  from tracks reach_play.hyps(3) show ?case
    by (rule session_inv_play)
next
  case (reach_pause t s now)
  then show ?case
    by (intro session_inv_pause) (rule session_inv_later)
next
  case (reach_resume t s now)
  then show ?case
    by (intro session_inv_resume) (rule session_inv_later)
next
  case (reach_stop t s now)
  then show ?case
    by (intro session_inv_stop) (rule session_inv_later)
next
  case (reach_skip t s now)
  then show ?case
    by (intro session_inv_skip) (rule session_inv_later)
next
  case (reach_set_progress t s now percentage)
  then show ?case
    by (intro session_inv_set_progress) (rule session_inv_later)
next
  case (reach_set_volume t s now target_volume)
  then show ?case
    by (intro session_inv_set_volume) (rule session_inv_later)
next
  case (reach_tracker t s now)
  then show ?case
    by (intro session_inv_tracker) (rule session_inv_later)
qed

lemma reach_progress_in_range:
  assumes "\<forall>l len. device l = Audio len \<longrightarrow> 0 < len" and "reach device t s"
  shows "0 \<le> progress s \<and> progress s \<le> 100"
  using reach_session_inv [OF assms] by (simp add: session_inv_def progress_in_range_def)

section \<open>Properties of the tracker\<close>

text \<open>Whatever cycles would follow, the loop is left in the first cycle in which the
  session is found playing: the update is followed by a \<^verbatim>\<open>return\<close>.\<close>

lemma track_progress_returns_at_first_update:
  assumes "\<not> thread_stop_event (fold run_command before_test s)"
    and "s1 = fold run_command during_sleep (fold run_command before_test s)"
    and "state_of s1 = Playing"
    and "current_song s1 \<noteq> None" and "current_song s1 \<noteq> Some []"
    and "song_length s1 \<noteq> 0"
  shows "track_progress ((before_test, during_sleep, now) # rest) s
           = (Returned (elapsed_percent now s1), s1\<lparr>progress := elapsed_percent now s1\<rparr>)"
  using assms by (simp add: state_of_def Let_def split: if_splits)

text \<open>A set stop event ends the loop at the next test; a paused session keeps it going.\<close>

lemma track_progress_cancelled:
  "thread_stop_event s \<Longrightarrow> track_progress (([], during_sleep, now) # rest) s = (Cancelled, s)"
  by simp

lemma track_progress_paused_loops:
  "\<not> thread_stop_event s \<Longrightarrow> is_paused s
     \<Longrightarrow> track_progress (replicate n ([], [], now)) s = (Looping, s)"
  by (induction n) simp_all

text \<open>
  C5. On the playing session, with three cycles ahead and no control operation in
  between, the tracker performs the update of the first cycle and returns: the stop event
  was never set, the session is still Playing, and the two later cycles are not run.
\<close>

theorem track_progress_exits_after_one_update:
  "track_progress [([], [], 1), ([], [], 2), ([], [], 3)] demo_playing
     = (Returned (1 / 2), demo_playing\<lparr>progress := 1 / 2\<rparr>)
   \<and> \<not> thread_stop_event (demo_playing\<lparr>progress := 1 / 2\<rparr>)
   \<and> state_of (demo_playing\<lparr>progress := 1 / 2\<rparr>) = Playing"
  by (simp add: demo_playing_def demo_song_def elapsed_percent_def state_of_def Let_def)

section \<open>Properties of the library matcher\<close>

lemma score_songs_songs:
  "score_songs api api_key q library = Inr scored \<Longrightarrow> map fst scored = library"
proof (induction library arbitrary: scored)
  case Nil
  then show ?case by simp
next
  case (Cons song rest)
  from Cons.prems obtain similarity matches where
    "score_songs api api_key q rest = Inr matches" and "scored = (song, similarity) # matches"
    by (auto split: sum.splits option.splits)
  with Cons.IH show ?case by simp
qed

lemma length_sort_matches: "length (sort_matches scored) = length scored"
  by (simp add: sort_matches_def)

lemma set_sort_matches: "set (sort_matches scored) = set scored"
  by (simp add: sort_matches_def)

lemma sort_matches_descending: "sorted_wrt (\<lambda>a b. snd b \<le> snd a) (sort_matches scored)"
proof -
  have "sorted (map (\<lambda>x. - snd x) (sort_matches scored))"
    unfolding sort_matches_def by (rule sorted_sort_key)
  then show ?thesis
    by (simp add: sorted_wrt_map)
qed

lemma sort_matches_stable:
  "filter (\<lambda>m. snd m = c) (sort_matches scored) = filter (\<lambda>m. snd m = c) scored"
proof -
  have "filter (\<lambda>m. - snd m = - c) (sort_key (\<lambda>x. - snd x) scored)
          = filter (\<lambda>m. - snd m = - c) scored"
    by (rule sort_key_stable)
  then show ?thesis
    by (simp add: sort_matches_def)
qed

text \<open>What a returned ranking is: the library was loaded and is not empty, every song was
  scored in library order, and the result is the head of the stably sorted scores.\<close>

lemma match_music_result:
  assumes "match_music api fs environment mood lib_path api_key top_n = Inr result"
  shows "\<exists>library scored.
           fs lib_path = Json library \<and> library \<noteq> [] \<and> map fst scored = library
           \<and> result = take (nat (max 1 top_n)) (sort_matches scored)"
proof -
  from assms obtain library where lib: "load_music_library fs lib_path = Inr library"
    by (auto simp: match_music_def split: sum.splits)
  from assms lib obtain q where
    q: "get_embedding api (query_text environment mood) api_key = Inr q"
    by (auto simp: match_music_def split: sum.splits)
  from assms lib q obtain scored where sc: "score_songs api api_key q library = Inr scored"
    by (auto simp: match_music_def split: sum.splits)
  from assms lib q sc have ne: "sort_matches scored \<noteq> []"
    and res: "result = take (nat (max 1 top_n)) (sort_matches scored)"
    by (auto simp: match_music_def Let_def split: list.splits option.splits)
  from lib have libfile: "fs lib_path = Json library"
    by (auto simp: load_music_library_def split: library_file.splits option.splits)
  have songs: "map fst scored = library"
    using sc by (rule score_songs_songs)
  from ne have "scored \<noteq> []"
    using length_sort_matches [of scored] by auto
  with songs have "library \<noteq> []"
    by auto
  with libfile songs res show ?thesis
    by blast
qed

text \<open>
  Every returned ranking, with \<open>top_n\<close> at least 1 and \<open>N\<close> songs in the library, has
  \<open>min top_n N\<close> entries, in descending order of score, and among the entries of one
  score the library order is kept (they are a prefix of the library's entries of that
  score). A ranking is only returned for a library that is not empty.
\<close>

lemma match_music_ranked:
  assumes ret: "match_music api fs environment mood lib_path api_key top_n = Inr result"
    and k: "1 \<le> top_n"
  shows "\<exists>library scored.
           fs lib_path = Json library \<and> map fst scored = library
           \<and> length result = min (nat top_n) (length library)
           \<and> sorted_wrt (\<lambda>a b. snd b \<le> snd a) result
           \<and> set result \<subseteq> set scored
           \<and> (\<forall>c. prefix (filter (\<lambda>m. snd m = c) result) (filter (\<lambda>m. snd m = c) scored))"
proof -
  from match_music_result [OF ret] obtain library scored where
    libfile: "fs lib_path = Json library" and songs: "map fst scored = library"
    and res: "result = take (nat (max 1 top_n)) (sort_matches scored)"
    by blast
  from k have n: "nat (max 1 top_n) = nat top_n"
    by simp
  from songs have len: "length scored = length library"
    by (metis length_map)
  have l: "length result = min (nat top_n) (length library)"
    by (simp add: res n length_sort_matches len min.commute)
  have d: "sorted_wrt (\<lambda>a b. snd b \<le> snd a) result"
    unfolding res by (rule sorted_wrt_take [OF sort_matches_descending])
  have s: "set result \<subseteq> set scored"
    unfolding res using set_take_subset [of "nat (max 1 top_n)" "sort_matches scored"]
    by (simp add: set_sort_matches)
  have p: "prefix (filter (\<lambda>m. snd m = c) result) (filter (\<lambda>m. snd m = c) scored)" for c
  proof -
    have "prefix (filter (\<lambda>m. snd m = c) result) (filter (\<lambda>m. snd m = c) (sort_matches scored))"
      unfolding res by (rule filter_mono_prefix [OF take_is_prefix])
    then show ?thesis
      by (simp add: sort_matches_stable)
  qed
  from libfile songs l d s p show ?thesis
    by blast
qed

text \<open>
  A ranking is returned for every library that is not empty and well formed (the four
  required fields in every song, \<^verbatim>\<open>features\<close> an object), given an API key and an
  embedding service that answers every text with a vector of one fixed dimension.
\<close>

lemma validate_title:
  "validate library = None \<Longrightarrow> song \<in> set library \<Longrightarrow> map_of song ''title'' \<noteq> None"
  by (induction library) (auto simp: required_fields_def Let_def split: if_splits)

lemma cosine_similarity_defined:
  "length a = length b \<Longrightarrow> \<exists>r. cosine_similarity a b = Inr r"
  by (simp add: cosine_similarity_def np_dot_def np_divide_def Let_def)

lemma song_features_defined:
  "map_of song ''features'' = Some (Obj fs) \<Longrightarrow> \<exists>text. song_features song = Inr text"
  by (simp add: song_features_def feature_def)

lemma score_songs_returns:
  assumes "\<forall>song \<in> set library.
             map_of song ''title'' \<noteq> None \<and> (\<exists>fs. map_of song ''features'' = Some (Obj fs))"
    and "api_key \<noteq> []"
    and "\<forall>text. \<exists>v. api text = Embedding v \<and> length v = length q"
  shows "\<exists>scored. score_songs api api_key q library = Inr scored"
  using assms(1)
proof (induction library)
  case Nil
  show ?case by simp
next
  case (Cons song rest)
  from Cons.prems obtain fs t where ft: "map_of song ''features'' = Some (Obj fs)"
    and tt: "map_of song ''title'' = Some t"
    by auto
  from song_features_defined [OF ft] obtain ftext where tx: "song_features song = Inr ftext"
    by blast
  from assms(3) obtain v where v: "api ftext = Embedding v" and lv: "length v = length q"
    by blast
  from v assms(2) have ge: "get_embedding api ftext api_key = Inr v"
    by (simp add: get_embedding_def)
  from lv cosine_similarity_defined [of q v] obtain r where r: "cosine_similarity q v = Inr r"
    by auto
  from Cons.IH Cons.prems obtain matches where
    m: "score_songs api api_key q rest = Inr matches"
    by auto
  from tx ge r tt m show ?case
    by simp
qed

lemma match_music_returns:
  assumes libfile: "fs lib_path = Json library"
    and nonempty: "library \<noteq> []"
    and valid: "validate library = None"
    and feats: "\<forall>song \<in> set library. \<exists>fs. map_of song ''features'' = Some (Obj fs)"
    and key: "api_key \<noteq> []"
    and service: "\<forall>text. \<exists>v. api text = Embedding v \<and> length v = n"
  shows "\<exists>result. match_music api fs environment mood lib_path api_key top_n = Inr result"
proof -
  from libfile valid have lib: "load_music_library fs lib_path = Inr library"
    by (simp add: load_music_library_def)
  from service obtain q where q: "api (query_text environment mood) = Embedding q"
    and lq: "length q = n"
    by blast
  from q key have ge: "get_embedding api (query_text environment mood) api_key = Inr q"
    by (simp add: get_embedding_def)
  have wf: "\<forall>song \<in> set library.
              map_of song ''title'' \<noteq> None \<and> (\<exists>fs. map_of song ''features'' = Some (Obj fs))"
    using feats validate_title [OF valid] by blast
  from service lq have "\<forall>text. \<exists>v. api text = Embedding v \<and> length v = length q"
    by simp
  from score_songs_returns [OF wf key this] obtain scored where
    sc: "score_songs api api_key q library = Inr scored"
    by blast
  have songs: "map fst scored = library"
    using sc by (rule score_songs_songs)
  with nonempty have "sort_matches scored \<noteq> []"
    using length_sort_matches [of scored] by auto
  then obtain best others where b: "sort_matches scored = best # others"
    by (cases "sort_matches scored") auto
  then have "best \<in> set scored"
    using set_sort_matches [of scored] by auto
  with songs have "fst best \<in> set library"
    by auto
  with valid obtain t where t: "map_of (fst best) ''title'' = Some t"
    using validate_title by blast
  from lib ge sc b t show ?thesis
    by (simp add: match_music_def Let_def)
qed

text \<open>A run on the library of three songs with \<open>top_n = 2\<close>: the two songs of score 1
  come first, in library order, and the song of score 0, first in the library, is cut.\<close>

lemma demo_song_features:
  "song_features demo_online = Inr (label_rhythm @ '':fast, '' @ label_mood @ '':bright'')"
  "song_features demo_song = Inr (label_rhythm @ '':slow, '' @ label_mood @ '':calm'')"
  "song_features demo_song2 = Inr (label_rhythm @ '':slow, '' @ label_mood @ '':calm'')"
  by (simp_all add: song_features_def feature_def demo_online_def demo_song_def demo_song2_def)

lemma demo_titles:
  "map_of demo_online ''title'' = Some (Str ''Cloud'')"
  "map_of demo_song ''title'' = Some (Str ''Rain'')"
  "map_of demo_song2 ''title'' = Some (Str ''Mist'')"
  by (simp_all add: demo_online_def demo_song_def demo_song2_def)

lemma demo_embeddings:
  "get_embedding demo_ranked_api (label_rhythm @ '':fast, '' @ label_mood @ '':bright'') ''key''
     = Inr [0, 1]"
  "get_embedding demo_ranked_api (label_rhythm @ '':slow, '' @ label_mood @ '':calm'') ''key''
     = Inr [1, 0]"
  "get_embedding demo_ranked_api (query_text ''cafe'' ''calm'') ''key'' = Inr [1, 0]"
  by (simp_all add: get_embedding_def demo_ranked_api_def label_rhythm_def label_mood_def
      label_environment_def query_text_def)

lemma demo_similarities:
  "cosine_similarity [1, 0] [0, 1] = Inr 0"
  "cosine_similarity [1, 0] [1, 0] = Inr 1"
  by (simp_all add: cosine_similarity_def np_dot_def np_linalg_norm_def np_divide_def)

lemma demo_scores:
  "score_songs demo_ranked_api ''key'' [1, 0] demo_library
     = Inr [(demo_online, 0), (demo_song, 1), (demo_song2, 1)]"
  by (simp add: demo_library_def demo_song_features demo_embeddings [simplified]
      demo_similarities demo_titles)

lemma demo_library_valid: "validate demo_library = None"
  by (simp add: demo_library_def required_fields_def demo_online_def demo_song_def
      demo_song2_def)

lemma match_music_demo_ranking:
  "match_music demo_ranked_api (\<lambda>p. Json demo_library) ''cafe'' ''calm'' ''songs.json'' ''key'' 2
     = Inr [(demo_song, 1), (demo_song2, 1)]"
  by (simp add: match_music_def load_music_library_def demo_library_valid demo_embeddings
      demo_scores sort_matches_def demo_titles)

text \<open>
  C4. On a library file that holds the empty array, \<open>match_music\<close> never returns the
  empty list: it raises the error of the query embedding if that call fails, and
  \<open>IndexError\<close> otherwise, at the line that prints the best match.
\<close>

theorem match_music_empty_library:
  "load_music_library (\<lambda>p. Json []) lib_path = Inr []
   \<and> match_music api (\<lambda>p. Json []) environment mood lib_path api_key top_n \<noteq> Inr []
   \<and> match_music api (\<lambda>p. Json []) environment mood lib_path api_key top_n
       = (case get_embedding api (query_text environment mood) api_key of
            Inl e \<Rightarrow> Inl e
          | Inr query_embedding \<Rightarrow> Inl IndexError)"
  by (simp add: match_music_def load_music_library_def sort_matches_def Let_def
           split: sum.splits)

text \<open>
  C6. For the library of no songs and \<open>top_n = 3\<close>, with an embedding service that
  answers every call, \<open>match_music\<close> does not return the list of \<open>min 3 0 = 0\<close> entries:
  it raises \<open>IndexError\<close>.
\<close>

theorem match_music_no_songs_top3:
  "match_music demo_api (\<lambda>p. Json []) ''cafe'' ''calm'' ''songs.json'' ''key'' 3
     = Inl IndexError"
  by (simp add: match_music_def load_music_library_def get_embedding_def demo_api_def
      sort_matches_def Let_def)

end
